theory Spec2Isabelle
  imports Complex_Main
begin

section \<open>The CBAM exposure and finance calculator of \<^verbatim>\<open>app.py\<close>\<close>

text \<open>
  The calculation layer of \<^verbatim>\<open>app.py\<close> (lines 133 to 191, and line 470) is a straight
  sequence of assignments over the sidebar inputs and the sector's reference row. Each
  assignment is one definition below, under the name of the Python variable, as a
  function of the inputs.

  Numbers: the sidebar's float inputs and the reference row's \<^verbatim>\<open>float(...)\<close> values
  are reals; the slider and the two integer number inputs are integers, converted where
  Python's true division or a mixed product converts them. Rounding is not modelled.
  Overflow to infinity and NaN are not part of this first layer either; the assignments
  whose bounds depend on them are modelled a second time, on doubles, further below.

  Errors: Python's \<^verbatim>\<open>/\<close> raises \<^verbatim>\<open>ZeroDivisionError\<close> on a zero divisor, so every
  \<^verbatim>\<open>/\<close> of the source is \<open>truediv\<close>, and a value computed from a division is a
  \<open>py_error + real\<close>.
\<close>

subsection \<open>Inputs\<close>

record inputs =
  user_intensity :: real
  export_volume_tonnes :: real
  selling_price :: real
  pre_margin_pct :: real
  reduction_pct :: int
  capex_per_pct_reduction_million_eur :: real
  slb_rate_discount_bps :: int
  deal_tenor_years :: int
  EUR_to_INR_rate :: real
  eu_benchmark :: real
  ets_price :: real

subsection \<open>Division that can raise\<close>

datatype py_error = ZeroDivisionError | OverflowError

definition truediv :: "real \<Rightarrow> real \<Rightarrow> py_error + real" where
  "truediv a b = (if b = 0 then Inl ZeroDivisionError else Inr (a / b))"

definition bind_err :: "py_error + 'a \<Rightarrow> ('a \<Rightarrow> py_error + 'b) \<Rightarrow> py_error + 'b" where
  "bind_err m f = (case m of Inl e \<Rightarrow> Inl e | Inr v \<Rightarrow> f v)"

subsection \<open>CBAM cost driver (lines 144 to 147)\<close>

definition excess_intensity :: "inputs \<Rightarrow> real" where
  "excess_intensity i = max (user_intensity i - eu_benchmark i) 0"

definition cbam_cost_per_tonne_calc :: "inputs \<Rightarrow> real" where
  "cbam_cost_per_tonne_calc i = excess_intensity i * ets_price i"

definition total_cbam_bill :: "inputs \<Rightarrow> real" where
  "total_cbam_bill i = cbam_cost_per_tonne_calc i * export_volume_tonnes i"

definition total_cbam_bill_inr :: "inputs \<Rightarrow> real" where
  "total_cbam_bill_inr i = total_cbam_bill i * EUR_to_INR_rate i"

subsection \<open>Margin hit (lines 150 to 152)\<close>

definition cbam_hit_pct_of_price :: "inputs \<Rightarrow> py_error + real" where
  "cbam_hit_pct_of_price i =
     (if selling_price i > 0
      then bind_err (truediv (cbam_cost_per_tonne_calc i) (selling_price i))
             (\<lambda>q. Inr (q * 100))
      else Inr 0)"

definition post_margin_pct :: "inputs \<Rightarrow> py_error + real" where
  "post_margin_pct i =
     bind_err (cbam_hit_pct_of_price i) (\<lambda>h. Inr (max (pre_margin_pct i - h) 0))"

definition margin_delta :: "inputs \<Rightarrow> py_error + real" where
  "margin_delta i = bind_err (post_margin_pct i) (\<lambda>p. Inr (p - pre_margin_pct i))"

subsection \<open>Competitiveness (lines 154 to 162)\<close>

text \<open>
  The \<^verbatim>\<open>if/elif/else\<close> assigns a label and a CSS class together. The three labels
  (\<^verbatim>\<open>GREEN - Broadly Aligned\<close>, \<^verbatim>\<open>YELLOW - Cost Pressure\<close>,
  \<^verbatim>\<open>RED - High Substitution Risk\<close>) are the constructors of \<open>label\<close>.
\<close>

datatype label = GREEN | YELLOW | RED

definition classify :: "real \<Rightarrow> label \<times> string" where
  "classify h =
     (if h \<le> 5 then (GREEN, ''status-green'')
      else if h \<le> 15 then (YELLOW, ''status-yellow'')
      else (RED, ''status-red''))"

definition competitiveness :: "inputs \<Rightarrow> py_error + label" where
  "competitiveness i = bind_err (cbam_hit_pct_of_price i) (\<lambda>h. Inr (fst (classify h)))"

definition competitiveness_class :: "inputs \<Rightarrow> py_error + string" where
  "competitiveness_class i =
     bind_err (cbam_hit_pct_of_price i) (\<lambda>h. Inr (snd (classify h)))"

subsection \<open>After decarbonisation scenario (lines 165 to 171)\<close>

definition reduced_intensity :: "inputs \<Rightarrow> py_error + real" where
  "reduced_intensity i =
     bind_err (truediv (of_int (reduction_pct i)) 100)
       (\<lambda>q. Inr (user_intensity i * (1 - q)))"

definition excess_after :: "inputs \<Rightarrow> py_error + real" where
  "excess_after i = bind_err (reduced_intensity i) (\<lambda>r. Inr (max (r - eu_benchmark i) 0))"

definition cbam_after_per_tonne :: "inputs \<Rightarrow> py_error + real" where
  "cbam_after_per_tonne i = bind_err (excess_after i) (\<lambda>e. Inr (e * ets_price i))"

definition total_cbam_after :: "inputs \<Rightarrow> py_error + real" where
  "total_cbam_after i =
     bind_err (cbam_after_per_tonne i) (\<lambda>c. Inr (c * export_volume_tonnes i))"

definition cbam_savings_total :: "inputs \<Rightarrow> py_error + real" where
  "cbam_savings_total i =
     bind_err (total_cbam_after i) (\<lambda>a. Inr (max (total_cbam_bill i - a) 0))"

definition cbam_savings_total_inr :: "inputs \<Rightarrow> py_error + real" where
  "cbam_savings_total_inr i =
     bind_err (cbam_savings_total i) (\<lambda>s. Inr (s * EUR_to_INR_rate i))"

subsection \<open>Finance sizing (lines 174 to 178)\<close>

definition total_transition_capex_million_eur :: "inputs \<Rightarrow> real" where
  "total_transition_capex_million_eur i =
     capex_per_pct_reduction_million_eur i * of_int (reduction_pct i)"

definition total_transition_capex_eur :: "inputs \<Rightarrow> real" where
  "total_transition_capex_eur i = total_transition_capex_million_eur i * 1000000"

definition total_transition_capex_inr :: "inputs \<Rightarrow> real" where
  "total_transition_capex_inr i = total_transition_capex_eur i * EUR_to_INR_rate i"

definition annual_finance_relief_estimate_eur :: "inputs \<Rightarrow> py_error + real" where
  "annual_finance_relief_estimate_eur i =
     bind_err (truediv (of_int (slb_rate_discount_bps i)) 10000)
       (\<lambda>q. Inr (q * total_transition_capex_eur i))"

definition annual_finance_relief_estimate_inr :: "inputs \<Rightarrow> py_error + real" where
  "annual_finance_relief_estimate_inr i =
     bind_err (annual_finance_relief_estimate_eur i) (\<lambda>r. Inr (r * EUR_to_INR_rate i))"

subsection \<open>Readiness score (lines 183 and 184)\<close>

definition score_raw :: "inputs \<Rightarrow> py_error + real" where
  "score_raw i =
     bind_err (cbam_hit_pct_of_price i) (\<lambda>h.
     bind_err (post_margin_pct i) (\<lambda>p.
       Inr (h * 2 + (pre_margin_pct i - p) * 5)))"

definition readiness_score :: "inputs \<Rightarrow> py_error + real" where
  "readiness_score i = bind_err (score_raw i) (\<lambda>s. Inr (max (min (100 - s) 100) 0))"

subsection \<open>Banker-specific calculations (lines 187 to 191)\<close>

definition annual_debt_service_eur :: "inputs \<Rightarrow> py_error + real" where
  "annual_debt_service_eur i =
     (if deal_tenor_years i > 0
      then truediv (total_transition_capex_eur i) (of_int (deal_tenor_years i))
      else Inr 0)"

definition annual_debt_service_inr :: "inputs \<Rightarrow> py_error + real" where
  "annual_debt_service_inr i =
     bind_err (annual_debt_service_eur i) (\<lambda>d. Inr (d * EUR_to_INR_rate i))"

definition annual_cash_flow_gain_eur :: "inputs \<Rightarrow> py_error + real" where
  "annual_cash_flow_gain_eur i =
     bind_err (cbam_savings_total i) (\<lambda>s.
     bind_err (annual_finance_relief_estimate_eur i) (\<lambda>r.
       Inr (s + r)))"

definition annual_cash_flow_gain_inr :: "inputs \<Rightarrow> py_error + real" where
  "annual_cash_flow_gain_inr i =
     bind_err (annual_cash_flow_gain_eur i) (\<lambda>g. Inr (g * EUR_to_INR_rate i))"

definition coverage_ratio :: "inputs \<Rightarrow> py_error + real" where
  "coverage_ratio i =
     bind_err (annual_cash_flow_gain_eur i) (\<lambda>g.
     bind_err (annual_debt_service_eur i) (\<lambda>d.
       if d > 0 then truediv g d else Inr 999))"

subsection \<open>Payback period (line 470, exporter view)\<close>

definition payback_period :: "inputs \<Rightarrow> py_error + real" where
  "payback_period i =
     bind_err (annual_cash_flow_gain_eur i) (\<lambda>g.
       if g > 0 then truediv (total_transition_capex_eur i) g else Inr 0)"

subsection \<open>The specification's clamp\<close>

text \<open>
  The specification writes the readiness score with \<open>clamp(x, lo, hi)\<close>; the source
  writes \<^verbatim>\<open>max(min(x, 100), 0)\<close>. This is the specification's operator, to compare.
\<close>

definition clamp :: "real \<Rightarrow> real \<Rightarrow> real \<Rightarrow> real" where
  "clamp x lo hi = (if x < lo then lo else if hi < x then hi else x)"

subsection \<open>A reference scenario\<close>

text \<open>
  The steel scenario of the specification (plant intensity 2.0 against a benchmark of 1.0,
  ETS price 80, 10,000 tonnes at a price of 1000), with a pre-CBAM margin of 10 percent
  and the sidebar's defaults for steel: 15 percent reduction, capex 8.0 per percent,
  75 bps, tenor 7, exchange rate 88.5. The theorems below are evaluated on it.
\<close>

definition steel_scenario :: inputs where
  "steel_scenario =
     \<lparr>user_intensity = 2, export_volume_tonnes = 10000, selling_price = 1000,
      pre_margin_pct = 10, reduction_pct = 15, capex_per_pct_reduction_million_eur = 8,
      slb_rate_discount_bps = 75, deal_tenor_years = 7, EUR_to_INR_rate = 177 / 2,
      eu_benchmark = 1, ets_price = 80\<rparr>"

section \<open>The floors and the score on doubles\<close>

text \<open>
  A Python float is an IEEE double: a finite value, an infinity or NaN. A result whose
  magnitude reaches \<open>2^1024 - 2^970\<close> rounds to an infinity, and \<open>inf - inf\<close> and
  \<open>inf * 0\<close> are NaN, which no comparison holds of. The sign bounds of the excess, the
  savings and the score depend on this, so the assignments they are computed from
  (lines 144 to 146, 150, 151, 165 to 170, 183 and 184) are modelled here on doubles,
  under the Python name with the suffix \<open>_f64\<close>. A finite result below the overflow
  bound is kept exact (rounding to the nearest double is not modelled, and the two
  zeros are one value).
\<close>

datatype double = Fin real | PosInf | NegInf | NaN

definition overflow_bound :: real where
  "overflow_bound = 2 ^ 1024 - 2 ^ 970"

definition fl :: "real \<Rightarrow> double" where
  "fl x = (if overflow_bound \<le> x then PosInf
           else if x \<le> - overflow_bound then NegInf
           else Fin x)"

fun fneg :: "double \<Rightarrow> double" where
  "fneg (Fin x) = Fin (- x)"
| "fneg PosInf = NegInf"
| "fneg NegInf = PosInf"
| "fneg NaN = NaN"

fun fadd :: "double \<Rightarrow> double \<Rightarrow> double" where
  "fadd (Fin x) (Fin y) = fl (x + y)"
| "fadd (Fin x) PosInf = PosInf"
| "fadd (Fin x) NegInf = NegInf"
| "fadd PosInf (Fin y) = PosInf"
| "fadd PosInf PosInf = PosInf"
| "fadd PosInf NegInf = NaN"
| "fadd NegInf (Fin y) = NegInf"
| "fadd NegInf PosInf = NaN"
| "fadd NegInf NegInf = NegInf"
| "fadd NaN b = NaN"
| "fadd a NaN = NaN"

definition fsub :: "double \<Rightarrow> double \<Rightarrow> double" where
  "fsub a b = fadd a (fneg b)"

fun fmul :: "double \<Rightarrow> double \<Rightarrow> double" where
  "fmul (Fin x) (Fin y) = fl (x * y)"
| "fmul (Fin x) PosInf = (if x = 0 then NaN else if 0 < x then PosInf else NegInf)"
| "fmul (Fin x) NegInf = (if x = 0 then NaN else if 0 < x then NegInf else PosInf)"
| "fmul PosInf (Fin y) = (if y = 0 then NaN else if 0 < y then PosInf else NegInf)"
| "fmul NegInf (Fin y) = (if y = 0 then NaN else if 0 < y then NegInf else PosInf)"
| "fmul PosInf PosInf = PosInf"
| "fmul PosInf NegInf = NegInf"
| "fmul NegInf PosInf = NegInf"
| "fmul NegInf NegInf = PosInf"
| "fmul NaN b = NaN"
| "fmul a NaN = NaN"

text \<open>
  Python's float division raises on a zero divisor, whatever the dividend; otherwise it
  is the IEEE quotient.
\<close>

definition fdiv :: "double \<Rightarrow> double \<Rightarrow> py_error + double" where
  "fdiv a b =
     (case b of
        Fin y \<Rightarrow>
          if y = 0 then Inl ZeroDivisionError
          else Inr (case a of
                      Fin x \<Rightarrow> fl (x / y)
                    | PosInf \<Rightarrow> (if 0 < y then PosInf else NegInf)
                    | NegInf \<Rightarrow> (if 0 < y then NegInf else PosInf)
                    | NaN \<Rightarrow> NaN)
      | PosInf \<Rightarrow> Inr (case a of Fin x \<Rightarrow> Fin 0 | PosInf \<Rightarrow> NaN | NegInf \<Rightarrow> NaN | NaN \<Rightarrow> NaN)
      | NegInf \<Rightarrow> Inr (case a of Fin x \<Rightarrow> Fin 0 | PosInf \<Rightarrow> NaN | NegInf \<Rightarrow> NaN | NaN \<Rightarrow> NaN)
      | NaN \<Rightarrow> Inr NaN)"

text \<open>
  The true division of two Python integers (\<^verbatim>\<open>reduction_pct/100\<close>) raises on a zero
  divisor, and raises \<^verbatim>\<open>OverflowError\<close> when the quotient is too large for a float.
\<close>

definition int_truediv :: "int \<Rightarrow> int \<Rightarrow> py_error + double" where
  "int_truediv a b =
     (if b = 0 then Inl ZeroDivisionError
      else if overflow_bound \<le> \<bar>of_int a / of_int b\<bar> then Inl OverflowError
      else Inr (Fin (of_int a / of_int b)))"

text \<open>Comparisons: every comparison with NaN is false.\<close>

fun fless :: "double \<Rightarrow> double \<Rightarrow> bool" where
  "fless (Fin x) (Fin y) = (x < y)"
| "fless (Fin x) PosInf = True"
| "fless NegInf (Fin y) = True"
| "fless NegInf PosInf = True"
| "fless a b = False"

fun fle :: "double \<Rightarrow> double \<Rightarrow> bool" where
  "fle (Fin x) (Fin y) = (x \<le> y)"
| "fle (Fin x) PosInf = True"
| "fle NegInf (Fin y) = True"
| "fle NegInf PosInf = True"
| "fle NegInf NegInf = True"
| "fle PosInf PosInf = True"
| "fle a b = False"

text \<open>
  Python's \<^verbatim>\<open>max(a, b)\<close> keeps \<open>a\<close> unless \<open>b > a\<close>, and \<^verbatim>\<open>min(a, b)\<close> keeps \<open>a\<close>
  unless \<open>b < a\<close>; so a NaN in the first place is returned.
\<close>

definition py_max :: "double \<Rightarrow> double \<Rightarrow> double" where
  "py_max a b = (if fless a b then b else a)"

definition py_min :: "double \<Rightarrow> double \<Rightarrow> double" where
  "py_min a b = (if fless b a then b else a)"

subsection \<open>CBAM cost driver on doubles (lines 144 to 146)\<close>

definition excess_intensity_f64 :: "inputs \<Rightarrow> double" where
  "excess_intensity_f64 i =
     py_max (fsub (Fin (user_intensity i)) (Fin (eu_benchmark i))) (Fin 0)"

definition cbam_cost_per_tonne_calc_f64 :: "inputs \<Rightarrow> double" where
  "cbam_cost_per_tonne_calc_f64 i = fmul (excess_intensity_f64 i) (Fin (ets_price i))"

definition total_cbam_bill_f64 :: "inputs \<Rightarrow> double" where
  "total_cbam_bill_f64 i =
     fmul (cbam_cost_per_tonne_calc_f64 i) (Fin (export_volume_tonnes i))"

subsection \<open>Margin hit on doubles (lines 150 and 151)\<close>

definition cbam_hit_pct_of_price_f64 :: "inputs \<Rightarrow> py_error + double" where
  "cbam_hit_pct_of_price_f64 i =
     (if selling_price i > 0
      then bind_err (fdiv (cbam_cost_per_tonne_calc_f64 i) (Fin (selling_price i)))
             (\<lambda>q. Inr (fmul q (Fin 100)))
      else Inr (Fin 0))"

definition post_margin_pct_f64 :: "inputs \<Rightarrow> py_error + double" where
  "post_margin_pct_f64 i =
     bind_err (cbam_hit_pct_of_price_f64 i)
       (\<lambda>h. Inr (py_max (fsub (Fin (pre_margin_pct i)) h) (Fin 0)))"

subsection \<open>After decarbonisation scenario on doubles (lines 165 to 170)\<close>

definition reduced_intensity_f64 :: "inputs \<Rightarrow> py_error + double" where
  "reduced_intensity_f64 i =
     bind_err (int_truediv (reduction_pct i) 100)
       (\<lambda>q. Inr (fmul (Fin (user_intensity i)) (fsub (Fin 1) q)))"

definition excess_after_f64 :: "inputs \<Rightarrow> py_error + double" where
  "excess_after_f64 i =
     bind_err (reduced_intensity_f64 i)
       (\<lambda>r. Inr (py_max (fsub r (Fin (eu_benchmark i))) (Fin 0)))"

definition cbam_after_per_tonne_f64 :: "inputs \<Rightarrow> py_error + double" where
  "cbam_after_per_tonne_f64 i =
     bind_err (excess_after_f64 i) (\<lambda>e. Inr (fmul e (Fin (ets_price i))))"

definition total_cbam_after_f64 :: "inputs \<Rightarrow> py_error + double" where
  "total_cbam_after_f64 i =
     bind_err (cbam_after_per_tonne_f64 i)
       (\<lambda>c. Inr (fmul c (Fin (export_volume_tonnes i))))"

definition cbam_savings_total_f64 :: "inputs \<Rightarrow> py_error + double" where
  "cbam_savings_total_f64 i =
     bind_err (total_cbam_after_f64 i)
       (\<lambda>a. Inr (py_max (fsub (total_cbam_bill_f64 i) a) (Fin 0)))"

subsection \<open>Readiness score on doubles (lines 183 and 184)\<close>

definition score_raw_f64 :: "inputs \<Rightarrow> py_error + double" where
  "score_raw_f64 i =
     bind_err (cbam_hit_pct_of_price_f64 i) (\<lambda>h.
     bind_err (post_margin_pct_f64 i) (\<lambda>p.
       Inr (fadd (fmul h (Fin 2)) (fmul (fsub (Fin (pre_margin_pct i)) p) (Fin 5)))))"

definition readiness_score_f64 :: "inputs \<Rightarrow> py_error + double" where
  "readiness_score_f64 i =
     bind_err (score_raw_f64 i)
       (\<lambda>s. Inr (py_max (py_min (fsub (Fin 100) s) (Fin 100)) (Fin 0)))"

subsection \<open>An export volume that overflows the bill\<close>

text \<open>
  The export volume's number input (lines 74 to 79) has a minimum of 0.0 and no
  maximum. This is the reference scenario with a volume of \<open>10^307\<close> tonnes.
\<close>

definition overflow_scenario :: inputs where
  "overflow_scenario = steel_scenario\<lparr>export_volume_tonnes := 10 ^ 307\<rparr>"

section \<open>Values of the fallible assignments\<close>

lemma bind_err_Inr: "bind_err (Inr v) f = f v"
  by (simp add: bind_err_def)

lemma truediv_nonzero: "b \<noteq> 0 \<Longrightarrow> truediv a b = Inr (a / b)"
  by (simp add: truediv_def)

lemma cbam_hit_pct_of_price_value:
  "cbam_hit_pct_of_price i =
     Inr (if selling_price i > 0
          then cbam_cost_per_tonne_calc i / selling_price i * 100 else 0)"
  by (simp add: cbam_hit_pct_of_price_def truediv_nonzero bind_err_Inr)

lemma post_margin_pct_value:
  "post_margin_pct i =
     Inr (max (pre_margin_pct i -
               (if selling_price i > 0
                then cbam_cost_per_tonne_calc i / selling_price i * 100 else 0)) 0)"
  by (simp add: post_margin_pct_def cbam_hit_pct_of_price_value bind_err_Inr)

lemma reduced_intensity_value:
  "reduced_intensity i = Inr (user_intensity i * (1 - of_int (reduction_pct i) / 100))"
  by (simp add: reduced_intensity_def truediv_nonzero bind_err_Inr)

lemma excess_after_value:
  "excess_after i =
     Inr (max (user_intensity i * (1 - of_int (reduction_pct i) / 100) - eu_benchmark i) 0)"
  by (simp add: excess_after_def reduced_intensity_value bind_err_Inr)

lemma total_cbam_after_value:
  "total_cbam_after i =
     Inr (max (user_intensity i * (1 - of_int (reduction_pct i) / 100) - eu_benchmark i) 0
          * ets_price i * export_volume_tonnes i)"
  by (simp add: total_cbam_after_def cbam_after_per_tonne_def excess_after_value bind_err_Inr)

lemma cbam_savings_total_value:
  "cbam_savings_total i =
     Inr (max (total_cbam_bill i -
               max (user_intensity i * (1 - of_int (reduction_pct i) / 100) - eu_benchmark i) 0
               * ets_price i * export_volume_tonnes i) 0)"
  by (simp add: cbam_savings_total_def total_cbam_after_value bind_err_Inr)

lemma annual_finance_relief_estimate_eur_value:
  "annual_finance_relief_estimate_eur i =
     Inr (of_int (slb_rate_discount_bps i) / 10000 * total_transition_capex_eur i)"
  by (simp add: annual_finance_relief_estimate_eur_def truediv_nonzero bind_err_Inr)

lemma annual_debt_service_eur_value:
  "annual_debt_service_eur i =
     Inr (if deal_tenor_years i > 0
          then total_transition_capex_eur i / of_int (deal_tenor_years i) else 0)"
  by (simp add: annual_debt_service_eur_def truediv_nonzero)

lemma annual_cash_flow_gain_eur_returns: "\<exists>g. annual_cash_flow_gain_eur i = Inr g"
  by (simp add: annual_cash_flow_gain_eur_def cbam_savings_total_value
      annual_finance_relief_estimate_eur_value bind_err_Inr)

lemma score_raw_value:
  "score_raw i =
     Inr ((if selling_price i > 0
           then cbam_cost_per_tonne_calc i / selling_price i * 100 else 0) * 2 +
          (pre_margin_pct i -
           max (pre_margin_pct i -
                (if selling_price i > 0
                 then cbam_cost_per_tonne_calc i / selling_price i * 100 else 0)) 0) * 5)"
  by (simp add: score_raw_def cbam_hit_pct_of_price_value post_margin_pct_value bind_err_Inr)

lemmas cost_driver_defs =
  excess_intensity_def cbam_cost_per_tonne_calc_def total_cbam_bill_def

lemma competitiveness_value:
  "cbam_hit_pct_of_price i = Inr h \<Longrightarrow> competitiveness i = Inr (fst (classify h))"
  by (simp add: competitiveness_def bind_err_Inr)

section \<open>The claims\<close>

text \<open>
  Claim C1. The competitiveness classification is a total step function of
  \<open>cbam_hit_pct_of_price\<close>: the hit is always computed, the label is the
  classification of that hit, and for every value \<open>x\<close> of the hit, \<open>x \<le> 5\<close> gives
  GREEN, \<open>5 < x \<le> 15\<close> gives YELLOW and \<open>15 < x\<close> gives RED. Ties go to the lower
  tier: exactly 5 is GREEN, 5.0001 is YELLOW, exactly 15 is YELLOW, 15.0001 is RED.
\<close>

theorem competitiveness_step_function:
  "(\<exists>h. cbam_hit_pct_of_price i = Inr h \<and> competitiveness i = Inr (fst (classify h))) \<and>
   (x \<le> 5 \<longrightarrow> fst (classify x) = GREEN) \<and>
   (5 < x \<and> x \<le> 15 \<longrightarrow> fst (classify x) = YELLOW) \<and>
   (15 < x \<longrightarrow> fst (classify x) = RED) \<and>
   fst (classify 5) = GREEN \<and> fst (classify (50001 / 10000)) = YELLOW \<and>
   fst (classify 15) = YELLOW \<and> fst (classify (150001 / 10000)) = RED"
proof -
  have "\<exists>h. cbam_hit_pct_of_price i = Inr h \<and> competitiveness i = Inr (fst (classify h))"
    by (simp add: cbam_hit_pct_of_price_value competitiveness_value)
  moreover have "x \<le> 5 \<longrightarrow> fst (classify x) = GREEN"
    by (simp add: classify_def)
  moreover have "5 < x \<and> x \<le> 15 \<longrightarrow> fst (classify x) = YELLOW"
    by (simp add: classify_def)
  moreover have "15 < x \<longrightarrow> fst (classify x) = RED"
    by (simp add: classify_def)
  moreover have "fst (classify 5) = GREEN" "fst (classify (50001 / 10000)) = YELLOW"
    "fst (classify 15) = YELLOW" "fst (classify (150001 / 10000)) = RED"
    by (simp_all add: classify_def)
  ultimately show ?thesis by blast
qed

theorem competitiveness_step_function_witness:
  "fst (classify 3) = GREEN \<and> fst (classify 8) = YELLOW \<and> fst (classify 20) = RED \<and>
   cbam_hit_pct_of_price steel_scenario = Inr 8 \<and>
   competitiveness steel_scenario = Inr YELLOW"
proof -
  have hit: "cbam_hit_pct_of_price steel_scenario = Inr 8"
    by (simp add: cbam_hit_pct_of_price_value cost_driver_defs steel_scenario_def)
  have "competitiveness steel_scenario = Inr (fst (classify 8))"
    using competitiveness_step_function [of steel_scenario 8] hit by auto
  then show ?thesis
    using competitiveness_step_function [of steel_scenario 3]
      competitiveness_step_function [of steel_scenario 8]
      competitiveness_step_function [of steel_scenario 20] hit
    by simp
qed

text \<open>
  Claim C2. For every input the exposure stage computes the excess over the benchmark
  floored at zero, the cost per tonne as excess times ETS price, the total bill as cost
  per tonne times export volume, and the INR bill as the bill times the exchange rate.
  At plant intensity 2.0, benchmark 1.0, ETS price 80 and 10,000 tonnes the excess is 1,
  the cost per tonne 80 and the bill 800,000.
\<close>

theorem exposure_formulas:
  "excess_intensity i = max (user_intensity i - eu_benchmark i) 0 \<and>
   cbam_cost_per_tonne_calc i = excess_intensity i * ets_price i \<and>
   total_cbam_bill i = cbam_cost_per_tonne_calc i * export_volume_tonnes i \<and>
   total_cbam_bill_inr i = total_cbam_bill i * EUR_to_INR_rate i \<and>
   (user_intensity i = 2 \<and> eu_benchmark i = 1 \<and> ets_price i = 80 \<and>
    export_volume_tonnes i = 10000 \<longrightarrow>
      excess_intensity i = 1 \<and> cbam_cost_per_tonne_calc i = 80 \<and>
      total_cbam_bill i = 800000)"
  by (simp add: cost_driver_defs total_cbam_bill_inr_def)

theorem exposure_formulas_witness:
  "excess_intensity steel_scenario = 1 \<and> cbam_cost_per_tonne_calc steel_scenario = 80 \<and>
   total_cbam_bill steel_scenario = 800000 \<and>
   total_cbam_bill_inr steel_scenario = 70800000"
proof -
  have "user_intensity steel_scenario = 2 \<and> eu_benchmark steel_scenario = 1 \<and>
    ets_price steel_scenario = 80 \<and> export_volume_tonnes steel_scenario = 10000"
    by (simp add: steel_scenario_def)
  moreover have "EUR_to_INR_rate steel_scenario = 177 / 2"
    by (simp add: steel_scenario_def)
  ultimately show ?thesis
    using exposure_formulas [of steel_scenario] by simp
qed





lemma max_min_is_clamp: "max (min x 100) 0 = clamp x 0 100"
  by (simp add: clamp_def)

lemma clamp_bounds: "lo \<le> hi \<Longrightarrow> lo \<le> clamp x lo hi \<and> clamp x lo hi \<le> hi"
  by (simp add: clamp_def)

lemma readiness_score_value:
  "cbam_hit_pct_of_price i = Inr h \<Longrightarrow> post_margin_pct i = Inr p \<Longrightarrow>
   readiness_score i = Inr (max (min (100 - (h * 2 + (pre_margin_pct i - p) * 5)) 100) 0)"
  by (simp add: readiness_score_def score_raw_def bind_err_Inr)

text \<open>
  Claim C4. For every input the readiness score is computed and equals the
  specification's \<open>clamp\<close> of 100 minus the raw score between 0 and 100, the raw score
  being twice the CBAM hit plus five times the margin erosion; so it lies in \<open>[0, 100]\<close>.
\<close>

theorem readiness_score_clamped:
  "\<exists>h p s. cbam_hit_pct_of_price i = Inr h \<and> post_margin_pct i = Inr p \<and>
     readiness_score i = Inr s \<and>
     s = clamp (100 - (h * 2 + (pre_margin_pct i - p) * 5)) 0 100 \<and>
     0 \<le> s \<and> s \<le> 100"
proof -
  obtain h where h: "cbam_hit_pct_of_price i = Inr h"
    by (simp add: cbam_hit_pct_of_price_value)
  obtain p where p: "post_margin_pct i = Inr p"
    by (simp add: post_margin_pct_value)
  let ?s = "clamp (100 - (h * 2 + (pre_margin_pct i - p) * 5)) 0 100"
  have "readiness_score i = Inr ?s"
    using h p by (simp add: readiness_score_value max_min_is_clamp)
  moreover have "0 \<le> ?s \<and> ?s \<le> 100"
    by (rule clamp_bounds) simp
  ultimately show ?thesis
    using h p by blast
qed

subsection \<open>Arithmetic on doubles\<close>

lemma overflow_bound_large: "2 ^ 970 \<le> overflow_bound"
  by (simp add: overflow_bound_def)

lemma overflow_bound_gt_100: "100 < overflow_bound"
  using overflow_bound_large by simp

lemma fl_cases: "fl x = Fin x \<or> fl x = PosInf \<or> fl x = NegInf"
  by (simp add: fl_def)

lemma fl_nonneg_cases: "0 \<le> x \<Longrightarrow> (x < overflow_bound \<and> fl x = Fin x) \<or> fl x = PosInf"
  using overflow_bound_gt_100 by (simp add: fl_def)

lemma fl_nonneg: "0 \<le> x \<Longrightarrow> fle (Fin 0) (fl x)"
  using fl_nonneg_cases [of x] by auto

lemma fl_in_range: "0 \<le> x \<Longrightarrow> x < overflow_bound \<Longrightarrow> fl x = Fin x"
  using overflow_bound_gt_100 by (simp add: fl_def)

lemma fsub_Fin: "fsub (Fin x) (Fin y) = fl (x - y)"
  by (simp add: fsub_def)

lemma fsub_Fin_fl_not_NaN: "fsub (Fin x) (fl y) \<noteq> NaN"
  using fl_cases [of y] fl_cases [of "x - y"] by (auto simp add: fsub_def)

lemma floor_not_NaN: "a \<noteq> NaN \<Longrightarrow> fle (Fin 0) (py_max a (Fin 0))"
  by (cases a) (simp_all add: py_max_def)

lemma floor_Fin: "x < overflow_bound \<Longrightarrow> py_max (fl x) (Fin 0) = Fin (max x 0)"
  using overflow_bound_gt_100 by (simp add: fl_def py_max_def)

lemma fmul_nonneg_pos: "fle (Fin 0) a \<Longrightarrow> 0 < y \<Longrightarrow> fle (Fin 0) (fmul a (Fin y))"
  by (cases a) (simp_all add: fl_nonneg)

lemma fdiv_nonneg_pos:
  "fle (Fin 0) a \<Longrightarrow> 0 < y \<Longrightarrow> \<exists>q. fdiv a (Fin y) = Inr q \<and> fle (Fin 0) q"
  by (cases a) (simp_all add: fdiv_def fl_nonneg)

lemma fadd_nonneg: "fle (Fin 0) a \<Longrightarrow> fle (Fin 0) b \<Longrightarrow> fle (Fin 0) (fadd a b)"
  by (cases a; cases b) (simp_all add: fl_nonneg)

lemma post_margin_range:
  assumes "fle (Fin 0) h" and "0 \<le> pre" and "pre < overflow_bound"
  shows "\<exists>p. py_max (fsub (Fin pre) h) (Fin 0) = Fin p \<and> 0 \<le> p \<and> p \<le> pre"
proof (cases h)
  case (Fin x)
  then have "0 \<le> x"
    using assms(1) by simp
  then have "pre - x < overflow_bound"
    using assms(3) by simp
  then have "py_max (fsub (Fin pre) h) (Fin 0) = Fin (max (pre - x) 0)"
    using Fin by (simp add: fsub_Fin floor_Fin)
  then show ?thesis
    using \<open>0 \<le> x\<close> assms(2) by simp
next
  case PosInf
  then show ?thesis
    using assms(2) by (simp add: fsub_def py_max_def)
next
  case NegInf
  then show ?thesis
    using assms(1) by simp
next
  case NaN
  then show ?thesis
    using assms(1) by simp
qed

lemma clamp_f64_range:
  assumes "fle (Fin 0) s"
  shows "\<exists>r. py_max (py_min (fsub (Fin 100) s) (Fin 100)) (Fin 0) = Fin r \<and> 0 \<le> r \<and> r \<le> 100"
proof (cases s)
  case (Fin x)
  then have "0 \<le> x"
    using assms by simp
  show ?thesis
  proof (cases "100 - x \<le> - overflow_bound")
    case True
    then have "fsub (Fin 100) s = NegInf"
      using Fin overflow_bound_gt_100 by (simp add: fsub_Fin fl_def)
    then show ?thesis
      by (simp add: py_min_def py_max_def)
  next
    case False
    then have "fsub (Fin 100) s = Fin (100 - x)"
      using Fin \<open>0 \<le> x\<close> overflow_bound_gt_100 by (simp add: fsub_Fin fl_def)
    then show ?thesis
      using \<open>0 \<le> x\<close> by (simp add: py_min_def py_max_def)
  qed
next
  case PosInf
  then show ?thesis
    by (simp add: fsub_def py_min_def py_max_def)
next
  case NegInf
  then show ?thesis
    using assms by simp
next
  case NaN
  then show ?thesis
    using assms by simp
qed

subsection \<open>Values of the assignments on doubles\<close>

lemma excess_intensity_f64_value:
  "user_intensity i - eu_benchmark i < overflow_bound \<Longrightarrow>
   excess_intensity_f64 i = Fin (excess_intensity i)"
  by (simp add: excess_intensity_f64_def excess_intensity_def fsub_Fin floor_Fin)

lemma cbam_cost_per_tonne_calc_f64_value:
  "user_intensity i - eu_benchmark i < overflow_bound \<Longrightarrow>
   cbam_cost_per_tonne_calc_f64 i = fl (cbam_cost_per_tonne_calc i)"
  by (simp add: cbam_cost_per_tonne_calc_f64_def cbam_cost_per_tonne_calc_def
      excess_intensity_f64_value)

lemma cbam_cost_per_tonne_calc_nonneg:
  "0 \<le> ets_price i \<Longrightarrow> 0 \<le> cbam_cost_per_tonne_calc i"
  by (simp add: cbam_cost_per_tonne_calc_def excess_intensity_def)

lemma int_truediv_percent:
  "0 \<le> r \<Longrightarrow> r \<le> 100 \<Longrightarrow> int_truediv r 100 = Inr (Fin (of_int r / 100))"
proof -
  assume "0 \<le> r" and "r \<le> 100"
  then have "\<bar>(of_int r :: real) / 100\<bar> \<le> 1"
    by simp
  then have "\<not> overflow_bound \<le> \<bar>(of_int r :: real) / of_int 100\<bar>"
    using overflow_bound_gt_100 by simp
  then show ?thesis
    by (simp add: int_truediv_def)
qed

lemma reduced_intensity_f64_value:
  assumes "0 \<le> user_intensity i" and "user_intensity i < overflow_bound"
    and "0 \<le> reduction_pct i" and "reduction_pct i \<le> 100"
  shows "reduced_intensity_f64 i =
    Inr (Fin (user_intensity i * (1 - of_int (reduction_pct i) / 100)))"
proof -
  let ?q = "(of_int (reduction_pct i) :: real) / 100"
  have q: "0 \<le> ?q" "?q \<le> 1"
    using assms(3,4) by simp_all
  then have "fsub (Fin 1) (Fin ?q) = Fin (1 - ?q)"
    using overflow_bound_gt_100 by (simp add: fsub_Fin fl_in_range)
  moreover have "0 \<le> user_intensity i * (1 - ?q)"
    using assms(1) q by simp
  moreover have "user_intensity i * (1 - ?q) \<le> user_intensity i * 1"
    using assms(1) q by (intro mult_left_mono) simp_all
  then have "user_intensity i * (1 - ?q) < overflow_bound"
    using assms(2) by simp
  ultimately show ?thesis
    using assms(3,4)
    by (simp add: reduced_intensity_f64_def int_truediv_percent bind_err_Inr fl_in_range)
qed

lemma excess_after_f64_value:
  assumes "0 \<le> user_intensity i" and "user_intensity i < overflow_bound"
    and "0 \<le> eu_benchmark i"
    and "0 \<le> reduction_pct i" and "reduction_pct i \<le> 100"
  shows "excess_after_f64 i =
    Inr (Fin (max (user_intensity i * (1 - of_int (reduction_pct i) / 100)
                   - eu_benchmark i) 0))"
proof -
  let ?q = "(of_int (reduction_pct i) :: real) / 100"
  have "0 \<le> ?q" "?q \<le> 1"
    using assms(4,5) by simp_all
  then have "user_intensity i * (1 - ?q) \<le> user_intensity i * 1"
    using assms(1) by (intro mult_left_mono) simp_all
  then have "user_intensity i * (1 - ?q) - eu_benchmark i < overflow_bound"
    using assms(2,3) by simp
  then show ?thesis
    using assms
    by (simp add: excess_after_f64_def reduced_intensity_f64_value bind_err_Inr
        fsub_Fin floor_Fin)
qed

lemma excess_after_le_excess:
  assumes "0 \<le> user_intensity i" and "0 \<le> reduction_pct i"
  shows "max (user_intensity i * (1 - of_int (reduction_pct i) / 100) - eu_benchmark i) 0
    \<le> excess_intensity i"
proof -
  have "user_intensity i * (1 - of_int (reduction_pct i) / 100) \<le> user_intensity i * 1"
    using assms by (intro mult_left_mono) simp_all
  then show ?thesis
    by (simp add: excess_intensity_def)
qed

lemma cbam_hit_pct_of_price_f64_nonneg:
  assumes "user_intensity i - eu_benchmark i < overflow_bound" and "0 \<le> ets_price i"
  shows "\<exists>h. cbam_hit_pct_of_price_f64 i = Inr h \<and> fle (Fin 0) h"
proof (cases "selling_price i > 0")
  case True
  have "fle (Fin 0) (cbam_cost_per_tonne_calc_f64 i)"
    using assms by (simp add: cbam_cost_per_tonne_calc_f64_value fl_nonneg
        cbam_cost_per_tonne_calc_nonneg)
  then obtain q where q: "fdiv (cbam_cost_per_tonne_calc_f64 i) (Fin (selling_price i)) = Inr q"
    and "fle (Fin 0) q"
    using True fdiv_nonneg_pos by blast
  then have "fle (Fin 0) (fmul q (Fin 100))"
    by (simp add: fmul_nonneg_pos)
  then show ?thesis
    using True q by (simp add: cbam_hit_pct_of_price_f64_def bind_err_Inr)
next
  case False
  then show ?thesis
    by (simp add: cbam_hit_pct_of_price_f64_def)
qed

lemma readiness_score_f64_range:
  assumes "user_intensity i - eu_benchmark i < overflow_bound" and "0 \<le> ets_price i"
    and "0 \<le> pre_margin_pct i" and "pre_margin_pct i < overflow_bound"
  shows "\<exists>r. readiness_score_f64 i = Inr r \<and> fle (Fin 0) r \<and> fle r (Fin 100)"
proof -
  obtain h where h: "cbam_hit_pct_of_price_f64 i = Inr h" and h0: "fle (Fin 0) h"
    using assms(1,2) cbam_hit_pct_of_price_f64_nonneg by blast
  obtain p where p: "py_max (fsub (Fin (pre_margin_pct i)) h) (Fin 0) = Fin p"
    and p0: "0 \<le> p" and p1: "p \<le> pre_margin_pct i"
    using h0 assms(3,4) post_margin_range by blast
  have post: "post_margin_pct_f64 i = Inr (Fin p)"
    using h p by (simp add: post_margin_pct_f64_def bind_err_Inr)
  let ?s = "fadd (fmul h (Fin 2)) (fmul (fsub (Fin (pre_margin_pct i)) (Fin p)) (Fin 5))"
  have "fle (Fin 0) (fsub (Fin (pre_margin_pct i)) (Fin p))"
    using p1 by (simp add: fsub_Fin fl_nonneg)
  then have "fle (Fin 0) (fmul (fsub (Fin (pre_margin_pct i)) (Fin p)) (Fin 5))"
    by (simp add: fmul_nonneg_pos)
  moreover have "fle (Fin 0) (fmul h (Fin 2))"
    using h0 by (simp add: fmul_nonneg_pos)
  ultimately have "fle (Fin 0) ?s"
    by (simp add: fadd_nonneg)
  then obtain r where "py_max (py_min (fsub (Fin 100) ?s) (Fin 100)) (Fin 0) = Fin r"
    and "0 \<le> r" and "r \<le> 100"
    using clamp_f64_range by blast
  moreover have "score_raw_f64 i = Inr ?s"
    using h post by (simp add: score_raw_f64_def bind_err_Inr)
  ultimately have "readiness_score_f64 i = Inr (Fin r) \<and> fle (Fin 0) (Fin r) \<and> fle (Fin r) (Fin 100)"
    by (simp add: readiness_score_f64_def bind_err_Inr)
  then show ?thesis
    by blast
qed

lemma finite_bill_finite_cost:
  assumes "fmul (fl c) (Fin v) = Fin x" and "0 \<le> c" and "0 \<le> v"
  shows "c < overflow_bound"
  using assms fl_nonneg_cases [of c] by (auto split: if_splits)

lemma cbam_savings_total_f64_nonneg:
  assumes "0 \<le> user_intensity i" and "user_intensity i < overflow_bound"
    and "0 \<le> eu_benchmark i" and "0 \<le> ets_price i" and "0 \<le> export_volume_tonnes i"
    and "0 \<le> reduction_pct i" and "reduction_pct i \<le> 100"
    and "total_cbam_bill_f64 i = Fin x"
  shows "\<exists>s. cbam_savings_total_f64 i = Inr s \<and> fle (Fin 0) s"
proof -
  let ?e' = "max (user_intensity i * (1 - of_int (reduction_pct i) / 100) - eu_benchmark i) 0"
  have range: "user_intensity i - eu_benchmark i < overflow_bound"
    using assms(2,3) by simp
  have "fmul (fl (cbam_cost_per_tonne_calc i)) (Fin (export_volume_tonnes i)) = Fin x"
    using assms(8) range
    by (simp add: total_cbam_bill_f64_def cbam_cost_per_tonne_calc_f64_value)
  then have "cbam_cost_per_tonne_calc i < overflow_bound"
    using assms(4,5) by (rule finite_bill_finite_cost [OF _ cbam_cost_per_tonne_calc_nonneg])
  moreover have "?e' * ets_price i \<le> cbam_cost_per_tonne_calc i"
    unfolding cbam_cost_per_tonne_calc_def
    using assms(1,4,6) by (intro mult_right_mono excess_after_le_excess)
  moreover have "0 \<le> ?e' * ets_price i"
    using assms(4) by simp
  ultimately have "fl (?e' * ets_price i) = Fin (?e' * ets_price i)"
    by (intro fl_in_range) simp_all
  then have "total_cbam_after_f64 i = Inr (fl (?e' * ets_price i * export_volume_tonnes i))"
    using assms(1,2,3,6,7)
    by (simp add: total_cbam_after_f64_def cbam_after_per_tonne_f64_def
        excess_after_f64_value bind_err_Inr)
  then have "cbam_savings_total_f64 i =
      Inr (py_max (fsub (Fin x) (fl (?e' * ets_price i * export_volume_tonnes i))) (Fin 0))"
    using assms(8) by (simp add: cbam_savings_total_f64_def bind_err_Inr)
  then show ?thesis
    by (simp add: floor_not_NaN fsub_Fin_fl_not_NaN)
qed

lemma steel_scenario_bill_f64: "total_cbam_bill_f64 steel_scenario = Fin 800000"
proof -
  have "user_intensity steel_scenario - eu_benchmark steel_scenario < overflow_bound"
    using overflow_bound_gt_100 by (simp add: steel_scenario_def)
  then have "cbam_cost_per_tonne_calc_f64 steel_scenario = fl 80"
    by (simp add: cbam_cost_per_tonne_calc_f64_value cost_driver_defs steel_scenario_def)
  moreover have "fl 80 = Fin 80"
    using overflow_bound_gt_100 by (simp add: fl_in_range)
  moreover have "fl 800000 = Fin 800000"
    using overflow_bound_large by (simp add: fl_in_range)
  ultimately show ?thesis
    by (simp add: total_cbam_bill_f64_def steel_scenario_def)
qed

lemma overflow_scenario_fields:
  "user_intensity overflow_scenario = 2" "export_volume_tonnes overflow_scenario = 10 ^ 307"
  "selling_price overflow_scenario = 1000" "pre_margin_pct overflow_scenario = 10"
  "reduction_pct overflow_scenario = 15"
  "capex_per_pct_reduction_million_eur overflow_scenario = 8"
  "slb_rate_discount_bps overflow_scenario = 75" "deal_tenor_years overflow_scenario = 7"
  "EUR_to_INR_rate overflow_scenario = 177 / 2" "eu_benchmark overflow_scenario = 1"
  "ets_price overflow_scenario = 80"
  by (simp_all add: overflow_scenario_def steel_scenario_def)

lemma overflow_at_volume: "fl (80 * 10 ^ 307) = PosInf" "fl (56 * 10 ^ 307) = PosInf"
  by (simp_all add: fl_def overflow_bound_def)

text \<open>
  Claim C5, as the code has it. For non-negative inputs that are doubles (below the
  overflow bound), with a reduction target between 0 and 100 percent: the excess intensity
  and the excess after reduction are at least 0, the readiness score lies in
  \<open>[0, 100]\<close>, and the CBAM savings are at least 0 whenever the total CBAM bill is
  finite, that is, has not overflowed to infinity.
\<close>

theorem floors_and_clamp_f64:
  assumes "0 \<le> user_intensity i" and "user_intensity i < overflow_bound"
    and "0 \<le> eu_benchmark i" and "0 \<le> ets_price i" and "0 \<le> export_volume_tonnes i"
    and "0 \<le> pre_margin_pct i" and "pre_margin_pct i < overflow_bound"
    and "0 \<le> reduction_pct i" and "reduction_pct i \<le> 100"
  shows "fle (Fin 0) (excess_intensity_f64 i) \<and>
    (\<exists>e. excess_after_f64 i = Inr e \<and> fle (Fin 0) e) \<and>
    (\<exists>r. readiness_score_f64 i = Inr r \<and> fle (Fin 0) r \<and> fle r (Fin 100)) \<and>
    ((\<exists>x. total_cbam_bill_f64 i = Fin x) \<longrightarrow>
       (\<exists>s. cbam_savings_total_f64 i = Inr s \<and> fle (Fin 0) s))"
proof -
  have range: "user_intensity i - eu_benchmark i < overflow_bound"
    using assms(2,3) by simp
  then have "fle (Fin 0) (excess_intensity_f64 i)"
    by (simp add: excess_intensity_f64_value excess_intensity_def)
  moreover have "\<exists>e. excess_after_f64 i = Inr e \<and> fle (Fin 0) e"
    using assms(1,2,3,8,9) by (simp add: excess_after_f64_value)
  moreover have "\<exists>r. readiness_score_f64 i = Inr r \<and> fle (Fin 0) r \<and> fle r (Fin 100)"
    using range assms(4,6,7) by (rule readiness_score_f64_range)
  moreover have "(\<exists>x. total_cbam_bill_f64 i = Fin x) \<longrightarrow>
      (\<exists>s. cbam_savings_total_f64 i = Inr s \<and> fle (Fin 0) s)"
    using assms(1,2,3,4,5,8,9) cbam_savings_total_f64_nonneg by blast
  ultimately show ?thesis
    by blast
qed

theorem floors_and_clamp_f64_witness:
  "fle (Fin 0) (excess_intensity_f64 steel_scenario) \<and>
   (\<exists>e. excess_after_f64 steel_scenario = Inr e \<and> fle (Fin 0) e) \<and>
   (\<exists>r. readiness_score_f64 steel_scenario = Inr r \<and> fle (Fin 0) r \<and> fle r (Fin 100)) \<and>
   total_cbam_bill_f64 steel_scenario = Fin 800000 \<and>
   (\<exists>s. cbam_savings_total_f64 steel_scenario = Inr s \<and> fle (Fin 0) s)"
proof -
  have "0 \<le> user_intensity steel_scenario" "user_intensity steel_scenario < overflow_bound"
    "0 \<le> eu_benchmark steel_scenario" "0 \<le> ets_price steel_scenario"
    "0 \<le> export_volume_tonnes steel_scenario"
    "0 \<le> pre_margin_pct steel_scenario" "pre_margin_pct steel_scenario < overflow_bound"
    "0 \<le> reduction_pct steel_scenario" "reduction_pct steel_scenario \<le> 100"
    using overflow_bound_gt_100 by (simp_all add: steel_scenario_def)
  then show ?thesis
    using floors_and_clamp_f64 [of steel_scenario] steel_scenario_bill_f64 by blast
qed

text \<open>
  The savings bound does not hold for every non-negative input. At an export volume of
  \<open>10^307\<close> tonnes the bill before and the bill after the reduction both overflow to
  infinity, their difference is NaN, and \<^verbatim>\<open>max(nan, 0)\<close> returns the NaN, which is
  not at least 0.
\<close>

theorem savings_nan_counterexample:
  "0 \<le> user_intensity overflow_scenario \<and> 0 \<le> export_volume_tonnes overflow_scenario \<and>
   0 \<le> selling_price overflow_scenario \<and> 0 \<le> pre_margin_pct overflow_scenario \<and>
   0 \<le> reduction_pct overflow_scenario \<and>
   0 \<le> capex_per_pct_reduction_million_eur overflow_scenario \<and>
   0 \<le> slb_rate_discount_bps overflow_scenario \<and> 0 \<le> deal_tenor_years overflow_scenario \<and>
   0 \<le> EUR_to_INR_rate overflow_scenario \<and> 0 \<le> eu_benchmark overflow_scenario \<and>
   0 \<le> ets_price overflow_scenario \<and>
   total_cbam_bill_f64 overflow_scenario = PosInf \<and>
   total_cbam_after_f64 overflow_scenario = Inr PosInf \<and>
   cbam_savings_total_f64 overflow_scenario = Inr NaN \<and>
   \<not> (\<exists>s. cbam_savings_total_f64 overflow_scenario = Inr s \<and> fle (Fin 0) s)"
proof -
  note f = overflow_scenario_fields
  have inputs: "0 \<le> user_intensity overflow_scenario"
    "0 \<le> export_volume_tonnes overflow_scenario"
    "0 \<le> selling_price overflow_scenario" "0 \<le> pre_margin_pct overflow_scenario"
    "0 \<le> reduction_pct overflow_scenario"
    "0 \<le> capex_per_pct_reduction_million_eur overflow_scenario"
    "0 \<le> slb_rate_discount_bps overflow_scenario" "0 \<le> deal_tenor_years overflow_scenario"
    "0 \<le> EUR_to_INR_rate overflow_scenario" "0 \<le> eu_benchmark overflow_scenario"
    "0 \<le> ets_price overflow_scenario"
    unfolding f by simp_all
  have small: "user_intensity overflow_scenario < overflow_bound"
    "reduction_pct overflow_scenario \<le> 100"
    unfolding f using overflow_bound_gt_100 by simp_all
  have fl80: "fl 80 = Fin 80" and fl56: "fl 56 = Fin 56"
    using overflow_bound_gt_100 by (simp_all add: fl_in_range)
  have "excess_intensity_f64 overflow_scenario = Fin 1"
    using small(1) inputs(10)
    by (simp add: excess_intensity_f64_value excess_intensity_def f(1,10))
  then have "cbam_cost_per_tonne_calc_f64 overflow_scenario = Fin 80"
    by (simp add: cbam_cost_per_tonne_calc_f64_def f(11) fl80)
  then have bill: "total_cbam_bill_f64 overflow_scenario = PosInf"
    by (simp only: total_cbam_bill_f64_def f(2) fmul.simps overflow_at_volume)
  have "excess_after_f64 overflow_scenario = Inr (Fin (7 / 10))"
    using inputs(1,10,5) small
    by (simp add: excess_after_f64_value f(1,5,10))
  then have "cbam_after_per_tonne_f64 overflow_scenario = Inr (Fin 56)"
    by (simp add: cbam_after_per_tonne_f64_def bind_err_Inr f(11) fl56)
  then have after: "total_cbam_after_f64 overflow_scenario = Inr PosInf"
    by (simp only: total_cbam_after_f64_def bind_err_Inr f(2) fmul.simps overflow_at_volume)
  have savings: "cbam_savings_total_f64 overflow_scenario = Inr NaN"
    by (simp add: cbam_savings_total_f64_def bill after bind_err_Inr fsub_def py_max_def)
  have "\<not> (\<exists>s. cbam_savings_total_f64 overflow_scenario = Inr s \<and> fle (Fin 0) s)"
    unfolding savings by simp
  with inputs bill after savings show ?thesis
    by blast
qed

text \<open>
  Claim C6. The CBAM hit is always computed, never raised: it is the cost per tonne
  divided by the selling price, times 100, when the selling price is positive, and 0
  when the selling price is 0.
\<close>

theorem cbam_hit_guarded:
  "(\<exists>h. cbam_hit_pct_of_price i = Inr h) \<and>
   (0 < selling_price i \<longrightarrow>
      cbam_hit_pct_of_price i = Inr (cbam_cost_per_tonne_calc i / selling_price i * 100)) \<and>
   (selling_price i = 0 \<longrightarrow> cbam_hit_pct_of_price i = Inr 0)"
  by (simp add: cbam_hit_pct_of_price_value)

theorem cbam_hit_guarded_witness:
  "cbam_hit_pct_of_price steel_scenario = Inr (80 / 1000 * 100) \<and>
   cbam_hit_pct_of_price (steel_scenario\<lparr>selling_price := 0\<rparr>) = Inr 0"
proof -
  have "0 < selling_price steel_scenario" "cbam_cost_per_tonne_calc steel_scenario = 80"
    "selling_price steel_scenario = 1000"
    by (simp_all add: cost_driver_defs steel_scenario_def)
  moreover have "selling_price (steel_scenario\<lparr>selling_price := 0\<rparr>) = 0"
    by simp
  ultimately show ?thesis
    using cbam_hit_guarded [of steel_scenario]
      cbam_hit_guarded [of "steel_scenario\<lparr>selling_price := 0\<rparr>"]
    by simp
qed

lemmas capex_defs =
  total_transition_capex_million_eur_def total_transition_capex_eur_def

lemma annual_cash_flow_gain_eur_value:
  "cbam_savings_total i = Inr s \<Longrightarrow> annual_finance_relief_estimate_eur i = Inr r \<Longrightarrow>
   annual_cash_flow_gain_eur i = Inr (s + r)"
  by (simp add: annual_cash_flow_gain_eur_def bind_err_Inr)

lemma coverage_ratio_value:
  "annual_cash_flow_gain_eur i = Inr g \<Longrightarrow> annual_debt_service_eur i = Inr d \<Longrightarrow>
   coverage_ratio i = Inr (if d > 0 then g / d else 999)"
  by (simp add: coverage_ratio_def truediv_nonzero bind_err_Inr)

lemma payback_period_value:
  "annual_cash_flow_gain_eur i = Inr g \<Longrightarrow>
   payback_period i = Inr (if g > 0 then total_transition_capex_eur i / g else 0)"
  by (simp add: payback_period_def truediv_nonzero bind_err_Inr)

lemma steel_scenario_gain: "annual_cash_flow_gain_eur steel_scenario = Inr 1140000"
proof -
  have "cbam_savings_total steel_scenario = Inr 240000"
    by (simp add: cbam_savings_total_value cost_driver_defs steel_scenario_def)
  moreover have "annual_finance_relief_estimate_eur steel_scenario = Inr 900000"
    by (simp add: annual_finance_relief_estimate_eur_value capex_defs steel_scenario_def)
  ultimately show ?thesis
    using annual_cash_flow_gain_eur_value [of steel_scenario 240000 900000] by simp
qed

lemma no_reduction_gain:
  "annual_cash_flow_gain_eur (steel_scenario\<lparr>reduction_pct := 0\<rparr>) = Inr 0"
proof -
  have "cbam_savings_total (steel_scenario\<lparr>reduction_pct := 0\<rparr>) = Inr 0"
    by (simp add: cbam_savings_total_value cost_driver_defs steel_scenario_def)
  moreover have "annual_finance_relief_estimate_eur (steel_scenario\<lparr>reduction_pct := 0\<rparr>) = Inr 0"
    by (simp add: annual_finance_relief_estimate_eur_value capex_defs)
  ultimately show ?thesis
    using annual_cash_flow_gain_eur_value [of "steel_scenario\<lparr>reduction_pct := 0\<rparr>" 0 0]
    by simp
qed

text \<open>
  Claim C7. The coverage ratio is always computed: it is the annual cash-flow gain
  divided by the annual debt service when the debt service is positive, and the
  sentinel 999 when the debt service is 0.
\<close>

theorem coverage_ratio_guarded:
  "\<exists>g d. annual_cash_flow_gain_eur i = Inr g \<and> annual_debt_service_eur i = Inr d \<and>
     (0 < d \<longrightarrow> coverage_ratio i = Inr (g / d)) \<and>
     (d = 0 \<longrightarrow> coverage_ratio i = Inr 999)"
proof -
  obtain g where g: "annual_cash_flow_gain_eur i = Inr g"
    using annual_cash_flow_gain_eur_returns by blast
  obtain d where d: "annual_debt_service_eur i = Inr d"
    by (simp add: annual_debt_service_eur_value)
  have "coverage_ratio i = Inr (if d > 0 then g / d else 999)"
    using g d by (rule coverage_ratio_value)
  then show ?thesis
    using g d by auto
qed

theorem coverage_ratio_guarded_witness:
  "coverage_ratio steel_scenario = Inr (133 / 2000) \<and>
   annual_debt_service_eur (steel_scenario\<lparr>reduction_pct := 0\<rparr>) = Inr 0 \<and>
   coverage_ratio (steel_scenario\<lparr>reduction_pct := 0\<rparr>) = Inr 999"
proof -
  have d: "annual_debt_service_eur steel_scenario = Inr (120000000 / 7)"
    by (simp add: annual_debt_service_eur_value capex_defs steel_scenario_def)
  have d0: "annual_debt_service_eur (steel_scenario\<lparr>reduction_pct := 0\<rparr>) = Inr 0"
    by (simp add: annual_debt_service_eur_value capex_defs)
  obtain g1 d1 where "annual_cash_flow_gain_eur steel_scenario = Inr g1"
    and "annual_debt_service_eur steel_scenario = Inr d1"
    and pos: "0 < d1 \<longrightarrow> coverage_ratio steel_scenario = Inr (g1 / d1)"
    using coverage_ratio_guarded [of steel_scenario] by blast
  then have g1: "g1 = 1140000" and d1: "d1 = 120000000 / 7"
    using steel_scenario_gain d by simp_all
  have "0 < d1"
    unfolding d1 by simp
  then have "coverage_ratio steel_scenario = Inr (g1 / d1)"
    using pos by blast
  moreover have "g1 / d1 = 133 / 2000"
    unfolding g1 d1 by simp
  ultimately have "coverage_ratio steel_scenario = Inr (133 / 2000)"
    by simp
  moreover obtain d0' where
    "annual_debt_service_eur (steel_scenario\<lparr>reduction_pct := 0\<rparr>) = Inr d0'"
    and zero: "d0' = 0 \<longrightarrow> coverage_ratio (steel_scenario\<lparr>reduction_pct := 0\<rparr>) = Inr 999"
    using coverage_ratio_guarded [of "steel_scenario\<lparr>reduction_pct := 0\<rparr>"] by blast
  then have "coverage_ratio (steel_scenario\<lparr>reduction_pct := 0\<rparr>) = Inr 999"
    using d0 by simp
  ultimately show ?thesis
    using d0 by simp
qed

text \<open>
  Claim C8. With a non-negative pre-CBAM margin, the post-CBAM margin is the margin
  minus the CBAM hit, floored at 0, and the margin delta is post minus pre; the delta
  is at most 0 whenever the hit is non-negative, which a non-negative ETS price
  ensures.
\<close>

theorem margin_erodes:
  assumes "0 \<le> pre_margin_pct i"
  shows "\<exists>h p d. cbam_hit_pct_of_price i = Inr h \<and>
     post_margin_pct i = Inr p \<and> p = max (pre_margin_pct i - h) 0 \<and>
     margin_delta i = Inr d \<and> d = p - pre_margin_pct i \<and>
     (0 \<le> h \<longrightarrow> d \<le> 0) \<and> (0 \<le> ets_price i \<longrightarrow> 0 \<le> h)"
proof -
  obtain h where h: "cbam_hit_pct_of_price i = Inr h"
    by (simp add: cbam_hit_pct_of_price_value)
  let ?p = "max (pre_margin_pct i - h) 0"
  have p: "post_margin_pct i = Inr ?p"
    using h by (simp add: post_margin_pct_def bind_err_Inr)
  then have d: "margin_delta i = Inr (?p - pre_margin_pct i)"
    by (simp add: margin_delta_def bind_err_Inr)
  have "0 \<le> h \<longrightarrow> ?p - pre_margin_pct i \<le> 0"
    using assms by simp
  moreover have "0 \<le> ets_price i \<longrightarrow> 0 \<le> h"
  proof
    assume "0 \<le> ets_price i"
    then have "0 \<le> cbam_cost_per_tonne_calc i"
      by (simp add: cbam_cost_per_tonne_calc_def excess_intensity_def)
    have "h = (if selling_price i > 0
        then cbam_cost_per_tonne_calc i / selling_price i * 100 else 0)"
      using h by (simp add: cbam_hit_pct_of_price_value)
    moreover have "0 < selling_price i \<Longrightarrow>
        0 \<le> cbam_cost_per_tonne_calc i / selling_price i * 100"
      using \<open>0 \<le> cbam_cost_per_tonne_calc i\<close> by (simp add: zero_le_divide_iff)
    ultimately show "0 \<le> h"
      by (cases "0 < selling_price i") simp_all
  qed
  ultimately show ?thesis
    using h p d by blast
qed

theorem margin_erodes_witness:
  "cbam_hit_pct_of_price steel_scenario = Inr 8 \<and>
   post_margin_pct steel_scenario = Inr 2 \<and>
   margin_delta steel_scenario = Inr (- 8)"
proof -
  have "0 \<le> pre_margin_pct steel_scenario" "pre_margin_pct steel_scenario = 10"
    by (simp_all add: steel_scenario_def)
  moreover have "cbam_hit_pct_of_price steel_scenario = Inr 8"
    by (simp add: cbam_hit_pct_of_price_value cost_driver_defs steel_scenario_def)
  ultimately show ?thesis
    using margin_erodes [of steel_scenario] by auto
qed

text \<open>
  Claim C9. The payback period is always computed: it is the transition capex divided
  by the annual cash-flow gain when the gain is positive, and 0 when the gain is zero
  or negative.
\<close>

theorem payback_period_guarded:
  "\<exists>g. annual_cash_flow_gain_eur i = Inr g \<and>
     (0 < g \<longrightarrow> payback_period i = Inr (total_transition_capex_eur i / g)) \<and>
     (g \<le> 0 \<longrightarrow> payback_period i = Inr 0)"
proof -
  obtain g where g: "annual_cash_flow_gain_eur i = Inr g"
    using annual_cash_flow_gain_eur_returns by blast
  then have "payback_period i = Inr (if g > 0 then total_transition_capex_eur i / g else 0)"
    by (rule payback_period_value)
  then show ?thesis
    using g by auto
qed

theorem payback_period_guarded_witness:
  "payback_period steel_scenario = Inr (2000 / 19) \<and>
   payback_period (steel_scenario\<lparr>reduction_pct := 0\<rparr>) = Inr 0"
proof -
  have "total_transition_capex_eur steel_scenario = 120000000"
    by (simp add: capex_defs steel_scenario_def)
  then have "payback_period steel_scenario = Inr (2000 / 19)"
    using payback_period_guarded [of steel_scenario] steel_scenario_gain by auto
  moreover have "payback_period (steel_scenario\<lparr>reduction_pct := 0\<rparr>) = Inr 0"
    using payback_period_guarded [of "steel_scenario\<lparr>reduction_pct := 0\<rparr>"]
      no_reduction_gain by auto
  ultimately show ?thesis
    by simp
qed

text \<open>
  Claim C10. Each INR output is its EUR counterpart times \<open>EUR_to_INR_rate\<close>: the CBAM
  bill, the CBAM savings, the transition capex, the annual finance relief, the annual
  debt service and the annual cash-flow gain. None of the six EUR values depends on
  the rate: replacing the rate by any \<open>k\<close> leaves them unchanged.
\<close>

theorem inr_is_eur_times_rate:
  "total_cbam_bill_inr i = total_cbam_bill i * EUR_to_INR_rate i \<and>
   (\<exists>s. cbam_savings_total i = Inr s \<and>
        cbam_savings_total_inr i = Inr (s * EUR_to_INR_rate i)) \<and>
   total_transition_capex_inr i = total_transition_capex_eur i * EUR_to_INR_rate i \<and>
   (\<exists>r. annual_finance_relief_estimate_eur i = Inr r \<and>
        annual_finance_relief_estimate_inr i = Inr (r * EUR_to_INR_rate i)) \<and>
   (\<exists>d. annual_debt_service_eur i = Inr d \<and>
        annual_debt_service_inr i = Inr (d * EUR_to_INR_rate i)) \<and>
   (\<exists>g. annual_cash_flow_gain_eur i = Inr g \<and>
        annual_cash_flow_gain_inr i = Inr (g * EUR_to_INR_rate i)) \<and>
   total_cbam_bill (i\<lparr>EUR_to_INR_rate := k\<rparr>) = total_cbam_bill i \<and>
   cbam_savings_total (i\<lparr>EUR_to_INR_rate := k\<rparr>) = cbam_savings_total i \<and>
   total_transition_capex_eur (i\<lparr>EUR_to_INR_rate := k\<rparr>) = total_transition_capex_eur i \<and>
   annual_finance_relief_estimate_eur (i\<lparr>EUR_to_INR_rate := k\<rparr>) =
     annual_finance_relief_estimate_eur i \<and>
   annual_debt_service_eur (i\<lparr>EUR_to_INR_rate := k\<rparr>) = annual_debt_service_eur i \<and>
   annual_cash_flow_gain_eur (i\<lparr>EUR_to_INR_rate := k\<rparr>) = annual_cash_flow_gain_eur i"
proof -
  let ?j = "i\<lparr>EUR_to_INR_rate := k\<rparr>"
  have bill: "total_cbam_bill_inr i = total_cbam_bill i * EUR_to_INR_rate i"
    by (simp add: total_cbam_bill_inr_def)
  have savings: "\<exists>s. cbam_savings_total i = Inr s \<and>
      cbam_savings_total_inr i = Inr (s * EUR_to_INR_rate i)"
  proof -
    obtain s where "cbam_savings_total i = Inr s"
      using cbam_savings_total_value by blast
    then show ?thesis
      by (simp add: cbam_savings_total_inr_def bind_err_Inr)
  qed
  have capex: "total_transition_capex_inr i = total_transition_capex_eur i * EUR_to_INR_rate i"
    by (simp add: total_transition_capex_inr_def)
  have relief: "\<exists>r. annual_finance_relief_estimate_eur i = Inr r \<and>
      annual_finance_relief_estimate_inr i = Inr (r * EUR_to_INR_rate i)"
  proof -
    obtain r where "annual_finance_relief_estimate_eur i = Inr r"
      using annual_finance_relief_estimate_eur_value by blast
    then show ?thesis
      by (simp add: annual_finance_relief_estimate_inr_def bind_err_Inr)
  qed
  have debt: "\<exists>d. annual_debt_service_eur i = Inr d \<and>
      annual_debt_service_inr i = Inr (d * EUR_to_INR_rate i)"
  proof -
    obtain d where "annual_debt_service_eur i = Inr d"
      using annual_debt_service_eur_value by blast
    then show ?thesis
      by (simp add: annual_debt_service_inr_def bind_err_Inr)
  qed
  have gain: "\<exists>g. annual_cash_flow_gain_eur i = Inr g \<and>
      annual_cash_flow_gain_inr i = Inr (g * EUR_to_INR_rate i)"
  proof -
    obtain g where "annual_cash_flow_gain_eur i = Inr g"
      using annual_cash_flow_gain_eur_returns by blast
    then show ?thesis
      by (simp add: annual_cash_flow_gain_inr_def bind_err_Inr)
  qed
  have bill': "total_cbam_bill ?j = total_cbam_bill i"
    by (simp add: cost_driver_defs)
  have savings': "cbam_savings_total ?j = cbam_savings_total i"
    by (simp add: cbam_savings_total_value bill')
  have capex': "total_transition_capex_eur ?j = total_transition_capex_eur i"
    by (simp add: capex_defs)
  have relief': "annual_finance_relief_estimate_eur ?j = annual_finance_relief_estimate_eur i"
    by (simp add: annual_finance_relief_estimate_eur_value capex')
  have debt': "annual_debt_service_eur ?j = annual_debt_service_eur i"
    by (simp add: annual_debt_service_eur_value capex')
  have gain': "annual_cash_flow_gain_eur ?j = annual_cash_flow_gain_eur i"
    by (simp add: annual_cash_flow_gain_eur_def savings' relief')
  show ?thesis
    using bill savings capex relief debt gain bill' savings' capex' relief' debt' gain'
    by blast
qed

end
